theory Spec2Isabelle
  imports Complex_Main
begin

section \<open>Exceptions\<close>

text \<open>
  Every exception the two dataset classes can raise is a value. \<open>RasterioIOError\<close> stands
  for a failure of the raster library while opening or reading a file.
\<close>

datatype error =
    IndexError
  | ValueError
  | KeyError
  | RuntimeError
  | AssertionError
  | DatasetNotFoundError
  | RasterioIOError

section \<open>Python, pandas, geopandas, numpy and torch primitives used by the datasets\<close>

subsection \<open>Strings\<close>

text \<open>
  \<^verbatim>\<open>s.replace(old, new)\<close>: every non-overlapping occurrence of \<open>old\<close>, scanning from
  the left. Both call sites pass a non-empty literal for \<open>old\<close>; for the empty \<open>old\<close>,
  which they never pass, the model returns \<open>s\<close> unchanged.
\<close>

function str_replace :: "string \<Rightarrow> string \<Rightarrow> string \<Rightarrow> string" where
  "str_replace old new [] = []"
| "str_replace old new (c # cs) =
     (if old \<noteq> [] \<and> take (length old) (c # cs) = old
      then new @ str_replace old new (drop (length old) (c # cs))
      else c # str_replace old new cs)"
  by pat_completeness auto
termination
  by (relation "measure (\<lambda>(old, new, s). length s)") auto

text \<open>\<^verbatim>\<open>'*_{}.tif'.format(measurement)\<close>, the only format string of the source.\<close>

definition format_filename_glob :: "string \<Rightarrow> string" where
  "format_filename_glob m = ''*_'' @ m @ ''.tif''"

subsection \<open>Slicing with a step\<close>

text \<open>The elements at positions \<open>0, n, 2n, ...\<close> of a list, for \<open>n > 0\<close>.\<close>

function every_nth :: "nat \<Rightarrow> 'a list \<Rightarrow> 'a list" where
  "every_nth n [] = []"
| "every_nth n (x # xs) = x # every_nth n (drop (n - 1) xs)"
  by pat_completeness auto
termination
  by (relation "measure (\<lambda>(n, xs). length xs)") auto

text \<open>
  \<^verbatim>\<open>index.iloc[::step]\<close>: \<open>None\<close> is the step 1, a zero step raises ValueError
  (\<open>slice step cannot be zero\<close>), a negative step walks the rows from the last one.
\<close>

definition iloc_step :: "int option \<Rightarrow> 'a list \<Rightarrow> error + 'a list" where
  "iloc_step step xs =
     (case step of
        None \<Rightarrow> Inr xs
      | Some k \<Rightarrow>
          if k = 0 then Inl ValueError
          else if 0 < k then Inr (every_nth (nat k) xs)
          else Inr (every_nth (nat (- k)) (rev xs)))"

subsection \<open>pandas intervals\<close>

text \<open>
  Timestamps are nanoseconds since the epoch, the representation of \<^verbatim>\<open>pd.Timestamp\<close>.
  \<^verbatim>\<open>pd.Timestamp.min\<close> and \<^verbatim>\<open>pd.Timestamp.max\<close> are the ends of the 64-bit range
  (the least value of the range is reserved for NaT).
\<close>

type_synonym timestamp = int

definition Timestamp_min :: timestamp where
  "Timestamp_min = - (2 ^ 63 - 1)"

definition Timestamp_max :: timestamp where
  "Timestamp_max = 2 ^ 63 - 1"


datatype closed = closed_right | closed_left | closed_both | closed_neither

record interval =
  iv_left :: timestamp
  iv_right :: timestamp
  iv_closed :: closed

definition closed_left_side :: "interval \<Rightarrow> bool" where
  "closed_left_side i \<longleftrightarrow> iv_closed i = closed_left \<or> iv_closed i = closed_both"

definition closed_right_side :: "interval \<Rightarrow> bool" where
  "closed_right_side i \<longleftrightarrow> iv_closed i = closed_right \<or> iv_closed i = closed_both"

text \<open>
  \<^verbatim>\<open>pd.Interval(left, right)\<close>: the parameter \<^verbatim>\<open>closed\<close> defaults to \<^verbatim>\<open>'right'\<close>,
  and the constructor raises ValueError (\<open>left side of interval must be <= right side\<close>)
  unless \<open>left \<le> right\<close>.
\<close>

definition pd_Interval :: "timestamp \<Rightarrow> timestamp \<Rightarrow> error + interval" where
  "pd_Interval l r =
     (if l \<le> r then Inr \<lparr>iv_left = l, iv_right = r, iv_closed = closed_right\<rparr>
      else Inl ValueError)"

text \<open>
  \<^verbatim>\<open>IntervalIndex.overlaps(other)\<close>, for one entry \<open>self\<close> of the index: the entry and
  \<open>other\<close> share a point. An endpoint in common counts only when it is closed on both
  sides (pandas: \<open>op1 = le if (self.closed_left and other.closed_right) else lt\<close>,
  \<open>op2 = le if (other.closed_left and self.closed_right) else lt\<close>, and the result is
  \<open>op1(self.left, other.right) & op2(other.left, self.right)\<close>).
\<close>

definition overlaps :: "interval \<Rightarrow> interval \<Rightarrow> bool" where
  "overlaps self other \<longleftrightarrow>
     (if closed_left_side self \<and> closed_right_side other
      then iv_left self \<le> iv_right other else iv_left self < iv_right other) \<and>
     (if closed_left_side other \<and> closed_right_side self
      then iv_left other \<le> iv_right self else iv_left other < iv_right self)"

subsection \<open>The GeoDataFrame index\<close>

text \<open>
  One row of \<^verbatim>\<open>self.index\<close>: the entry of the \<^verbatim>\<open>IntervalIndex\<close> named \<open>datetime\<close>,
  the geometry column and the remaining columns (\<open>filepath\<close> for a raster dataset, the
  ten layer file names for EnviroAtlas).
\<close>

record ('g, 'd) row =
  datetime :: interval
  geometry :: 'g
  columns :: 'd

text \<open>
  The query after \<^verbatim>\<open>_disambiguate_slice\<close>: the three slices \<open>x\<close>, \<open>y\<close>, \<open>t\<close> with the
  attributes \<^verbatim>\<open>__getitem__\<close> reads.
\<close>

record slices =
  x_start :: real
  x_stop :: real
  y_start :: real
  y_stop :: real
  t_start :: timestamp
  t_stop :: timestamp
  t_step :: "int option"

text \<open>\<^verbatim>\<open>shapely.geometry.box(minx, miny, maxx, maxy)\<close>.\<close>

record box =
  minx :: real
  miny :: real
  maxx :: real
  maxy :: real

definition query_box :: "slices \<Rightarrow> box" where
  "query_box s = \<lparr>minx = x_start s, miny = y_start s, maxx = x_stop s, maxy = y_stop s\<rparr>"

text \<open>
  \<^verbatim>\<open>index.cx[x.start:x.stop, y.start:y.stop]\<close>: geopandas keeps the rows whose geometry
  intersects the box of the four coordinates. The predicate \<open>intersects\<close> is shapely's
  and is a parameter of the model.
\<close>

definition cx :: "('g \<Rightarrow> box \<Rightarrow> bool) \<Rightarrow> slices \<Rightarrow> ('g, 'd) row list \<Rightarrow> ('g, 'd) row list" where
  "cx intersects s rows = filter (\<lambda>r. intersects (geometry r) (query_box s)) rows"

text \<open>
  The first four lines shared by both \<^verbatim>\<open>__getitem__\<close> methods, after
  \<^verbatim>\<open>_disambiguate_slice\<close>:
  \<^verbatim>\<open>
  interval = pd.Interval(t.start, t.stop)
  index = self.index.iloc[self.index.index.overlaps(interval)]
  index = index.iloc[:: t.step]
  index = index.cx[x.start : x.stop, y.start : y.stop]
  \<close>
\<close>

definition filter_index ::
  "('g \<Rightarrow> box \<Rightarrow> bool) \<Rightarrow> ('g, 'd) row list \<Rightarrow> slices \<Rightarrow> error + ('g, 'd) row list" where
  "filter_index intersects index s =
     (case pd_Interval (t_start s) (t_stop s) of
        Inl e \<Rightarrow> Inl e
      | Inr interval \<Rightarrow>
          (case iloc_step (t_step s) (filter (\<lambda>r. overlaps (datetime r) interval) index) of
             Inl e \<Rightarrow> Inl e
           | Inr index' \<Rightarrow> Inr (cx intersects s index')))"

text \<open>Intersection of two axis-parallel rectangles, borders included: shapely's
  \<open>intersects\<close> for a tile whose geometry is a box.\<close>

definition box_intersects :: "box \<Rightarrow> box \<Rightarrow> bool" where
  "box_intersects a b \<longleftrightarrow>
     min (minx a) (maxx a) \<le> max (minx b) (maxx b) \<and>
     min (minx b) (maxx b) \<le> max (minx a) (maxx a) \<and>
     min (miny a) (maxy a) \<le> max (miny b) (maxy b) \<and>
     min (miny b) (maxy b) \<le> max (miny a) (maxy a)"

subsection \<open>Arrays\<close>

text \<open>
  An array or tensor of shape \<open>(bands, height, width)\<close>: the height and width, and the
  bands in order, each band the list of its pixels.
\<close>

record 'px tensor =
  hw :: "nat \<times> nat"
  bands :: "'px list list"

text \<open>
  \<^verbatim>\<open>torch.cat((a, b), dim=0)\<close>: the bands of \<open>a\<close> followed by those of \<open>b\<close>; sizes that
  differ outside dimension 0 raise RuntimeError.
\<close>

definition torch_cat :: "'px tensor \<Rightarrow> 'px tensor \<Rightarrow> error + 'px tensor" where
  "torch_cat a b =
     (if hw a = hw b then Inr \<lparr>hw = hw a, bands = bands a @ bands b\<rparr>
      else Inl RuntimeError)"

text \<open>
  \<^verbatim>\<open>np.concatenate(arrays, axis=0)\<close>: an empty list raises ValueError (\<open>need at least
  one array to concatenate\<close>), and so do arrays whose other dimensions differ.
\<close>

definition np_concatenate :: "'px tensor list \<Rightarrow> error + 'px tensor" where
  "np_concatenate arrays =
     (case arrays of
        [] \<Rightarrow> Inl ValueError
      | a # rest \<Rightarrow>
          if \<forall>b \<in> set rest. hw b = hw a
          then Inr \<lparr>hw = hw a, bands = concat (map bands arrays)\<rparr>
          else Inl ValueError)"


section \<open>GlobBiomass\<close>

subsection \<open>Class attributes\<close>

datatype torch_dtype = float32 | long

definition GlobBiomass_filename_glob :: string where
  "GlobBiomass_filename_glob = ''*_{}.tif''"



definition measurements :: "string list" where
  "measurements = [''agb'', ''gsv'']"

definition md5s_items :: "(string \<times> string) list" where
  "md5s_items = [
     (''N00E020_agb.zip'', ''bd83a3a4c143885d1962bde549413be6''),
     (''N00E020_gsv.zip'', ''da5ddb88e369df2d781a0c6be008ae79''),
     (''N00E060_agb.zip'', ''85eaca95b939086cc528e396b75bd097''),
     (''N00E060_gsv.zip'', ''ec84174697c17ca4db2967374446ab30''),
     (''N00E100_agb.zip'', ''c50c7c996615c1c6f19cb383ef11812a''),
     (''N00E100_gsv.zip'', ''6e0ff834db822d3710ed40d00a200e8f''),
     (''N00E140_agb.zip'', ''73f0b44b9e137789cefb711ef9aa281b''),
     (''N00E140_gsv.zip'', ''43be3dd4563b63d12de006d240ba5edf''),
     (''N00W020_agb.zip'', ''4fb979732f0a22cc7a2ca3667698084b''),
     (''N00W020_gsv.zip'', ''ac5bbeedaa0f94a5e01c7a86751d6891''),
     (''N00W060_agb.zip'', ''59da0b32b08fbbcd2dd76926a849562b''),
     (''N00W060_gsv.zip'', ''5ca9598f621a7d10ab1d623ee5b44aa6''),
     (''N00W100_agb.zip'', ''a819b75a39e8d4d37b15745c96ea1e35''),
     (''N00W100_gsv.zip'', ''71aad3669d522f7190029ec33350831a''),
     (''N00W180_agb.zip'', ''5a1d7486d8310fbaf4980a76e9ffcd78''),
     (''N00W180_gsv.zip'', ''274be7dbb4e6d7563773cc302129a9c7''),
     (''N40E020_agb.zip'', ''38bc7170f94734b365d614a566f872e7''),
     (''N40E020_gsv.zip'', ''b52c1c777d68c331cc058a273530536e''),
     (''N40E060_agb.zip'', ''1d94ad59f3f26664fefa4d7308b63f05''),
     (''N40E060_gsv.zip'', ''3b68786b7641400077ef340a7ef748f4''),
     (''N40E100_agb.zip'', ''3ccb436047c0db416fb237435645989c''),
     (''N40E100_gsv.zip'', ''c44efe9e7ce2ae0f2e39b0db10f06c71''),
     (''N40E140_agb.zip'', ''35ea51da229af1312ba4aaafc0dbd5d6''),
     (''N40E140_gsv.zip'', ''8431828708c84263a4971a8779864f69''),
     (''N40W020_agb.zip'', ''38345a1826719301ab1a0251b4835cc2''),
     (''N40W020_gsv.zip'', ''5e136b7c2f921cd425cb5cc5669e7693''),
     (''N40W060_agb.zip'', ''e3f54df1d188c0132ecf5aef3dc54ca6''),
     (''N40W060_gsv.zip'', ''09093d78ffef0220cb459a88e61e3093''),
     (''N40W100_agb.zip'', ''cc21ce8793e5594dc7a0b45f0d0f1466''),
     (''N40W100_gsv.zip'', ''21be1398df88818d04dcce422e2010a6''),
     (''N40W140_agb.zip'', ''64665f53fad7386abb1cf4a44a1c8b1a''),
     (''N40W140_gsv.zip'', ''b59405219fc807cbe745789fbb6936a6''),
     (''N40W180_agb.zip'', ''f83ef786da8333ee739e49be108994c1''),
     (''N40W180_gsv.zip'', ''1f2eb8912b1a204eaeb2858b7e398baa''),
     (''N80E020_agb.zip'', ''7f7aed44802890672bd908e28eda6f15''),
     (''N80E020_gsv.zip'', ''6e285eec66306e56dc3a81adc0da2a27''),
     (''N80E060_agb.zip'', ''55e7031e0207888f25f27efa9a0ab8f4''),
     (''N80E060_gsv.zip'', ''8d14c7f61ad2aed527e124f9aacae30c''),
     (''N80E100_agb.zip'', ''562eafd2813ff06e47284c48324bb1c7''),
     (''N80E100_gsv.zip'', ''73067e0fac442c330ae2294996280042''),
     (''N80E140_agb.zip'', ''1b51ce0df0dba925c5ef2149bebca115''),
     (''N80E140_gsv.zip'', ''37ee3047d281fc34fa3a9e024a8317a1''),
     (''N80W020_agb.zip'', ''60dde6adc0dfa219a34c976367f571c0''),
     (''N80W020_gsv.zip'', ''b7be4e97bb4179710291ee8dee27f538''),
     (''N80W060_agb.zip'', ''db7d35d0375851c4a181c3a8fa8b480e''),
     (''N80W060_gsv.zip'', ''d36ffcf4622348382454c979baf53234''),
     (''N80W100_agb.zip'', ''c0dbf53e635dabf9a4d7d1756adeda69''),
     (''N80W100_gsv.zip'', ''abdeaf0d65da1216c326b6d0ce27d61b''),
     (''N80W140_agb.zip'', ''7719c0efd23cd86215fea0285fd0ea4a''),
     (''N80W140_gsv.zip'', ''499969bed381197ee9427a2e3f455a2e''),
     (''N80W180_agb.zip'', ''e3a163d1944e1989a07225d262a01c6f''),
     (''N80W180_gsv.zip'', ''5d39ec0368cfe63c40c66d61ae07f577''),
     (''S40E140_agb.zip'', ''263eb077a984117b41cc7cfa0c32915b''),
     (''S40E140_gsv.zip'', ''e0ffad85fbade4fb711cc5b3c7543898''),
     (''S40W060_agb.zip'', ''2cbf6858c48f36add896db660826829b''),
     (''S40W060_gsv.zip'', ''04dbfd4aca0bd2a2a7d8f563c8659252''),
     (''S40W100_agb.zip'', ''ae89f021e7d9c2afea433878f77d1dd6''),
     (''S40W100_gsv.zip'', ''b6aa3f276e1b51dade803a71df2acde6'')]"

definition md5s :: "string \<rightharpoonup> string" where
  "md5s = map_of md5s_items"

subsection \<open>Paths and the file system\<close>

text \<open>The constructor's \<^verbatim>\<open>paths: Path | Iterable[Path]\<close>.\<close>

datatype paths = Path string | Paths "string list"

text \<open>\<^verbatim>\<open>os.path.join\<close> and \<^verbatim>\<open>os.path.basename\<close> on POSIX paths.\<close>

definition os_path_join :: "string \<Rightarrow> string \<Rightarrow> string" where
  "os_path_join a b =
     (if b \<noteq> [] \<and> hd b = CHR ''/'' then b
      else if a = [] \<or> last a = CHR ''/'' then a @ b
      else a @ ''/'' @ b)"

definition os_path_basename :: "string \<Rightarrow> string" where
  "os_path_basename p = rev (takeWhile (\<lambda>c. c \<noteq> CHR ''/'') (rev p))"

text \<open>
  What the constructors read from the file system: \<open>files paths glob\<close> is the property
  \<^verbatim>\<open>self.files\<close> of a dataset with these \<open>paths\<close> and this \<open>filename_glob\<close>, \<open>glob\<close> is
  \<^verbatim>\<open>glob.glob\<close> (and \<^verbatim>\<open>glob.iglob\<close>), \<open>check_integrity\<close> compares a file's MD5 with
  the expected one, \<open>exists\<close> is \<^verbatim>\<open>os.path.exists\<close>.
\<close>

record filesystem =
  files :: "paths \<Rightarrow> string \<Rightarrow> string list"
  glob :: "string \<Rightarrow> string list"
  check_integrity :: "string \<Rightarrow> string \<Rightarrow> bool"
  exists :: "string \<Rightarrow> bool"

subsection \<open>Samples and datasets\<close>

text \<open>The sample dictionary; a key that is not set is \<open>None\<close>.\<close>

record ('q, 'px) sample =
  image :: "'px tensor option"
  mask :: "'px tensor"
  crs :: string
  bounds :: 'q

text \<open>The attributes of a \<^verbatim>\<open>GeoDataset\<close> that the two classes read.\<close>

record ('g, 'd, 'q, 'px) geo_dataset =
  index :: "('g, 'd) row list"
  dataset_crs :: string
  dataset_bounds :: slices
  transforms :: "(('q, 'px) sample \<Rightarrow> ('q, 'px) sample) option"

record ('g, 'q, 'px) globbiomass = "('g, string, 'q, 'px) geo_dataset" +
  paths :: paths
  measurement :: string
  checksum :: bool
  filename_glob :: string

text \<open>
  The methods inherited from \<^verbatim>\<open>GeoDataset\<close> and \<^verbatim>\<open>RasterDataset\<close> and the geometry
  library, as parameters: \<open>intersects\<close> is shapely's predicate, \<open>disambiguate_slice\<close>
  is \<^verbatim>\<open>self._disambiguate_slice\<close>, \<open>merge_files\<close> is \<^verbatim>\<open>self._merge_files\<close>, which
  returns the merged raster of the files or raises inside the raster library (\<open>None\<close>,
  reported as \<open>RasterioIOError\<close>).
\<close>

record ('g, 'q) geo_methods =
  intersects :: "'g \<Rightarrow> box \<Rightarrow> bool"
  disambiguate_slice :: "'q \<Rightarrow> slices"

record ('g, 'q, 'px) raster_methods = "('g, 'q) geo_methods" +
  merge_files :: "string list \<Rightarrow> 'q \<Rightarrow> 'px tensor option"

subsection \<open>\<^verbatim>\<open>GlobBiomass.__getitem__\<close>\<close>

text \<open>The column \<^verbatim>\<open>index.filepath\<close>.\<close>

definition filepath :: "('g, string) row list \<Rightarrow> string list" where
  "filepath idx = map columns idx"

text \<open>Lines 209 to 221: the sample built from the rows that survive the filters.\<close>

definition GlobBiomass_load ::
  "('g, 'q, 'px) raster_methods \<Rightarrow> ('g, 'q, 'px) globbiomass \<Rightarrow> 'q \<Rightarrow>
   ('g, string) row list \<Rightarrow> error + ('q, 'px) sample" where
  "GlobBiomass_load m self query idx =
     (case merge_files m (filepath idx) query of
        None \<Rightarrow> Inl RasterioIOError
      | Some mask0 \<Rightarrow>
          (let std_error_paths = map (str_replace ''.tif'' ''_err.tif'') (filepath idx) in
           case merge_files m std_error_paths query of
             None \<Rightarrow> Inl RasterioIOError
           | Some std_err_mask \<Rightarrow>
               (case torch_cat mask0 std_err_mask of
                  Inl e \<Rightarrow> Inl e
                | Inr mask1 \<Rightarrow>
                    (let sample = \<lparr>image = None, mask = mask1,
                                    crs = dataset_crs self, bounds = query\<rparr>
                     in Inr (case transforms self of
                               None \<Rightarrow> sample
                             | Some f \<Rightarrow> f sample)))))"

text \<open>
  The method returns its result and leaves the dataset as it is: no statement of its
  body assigns to an attribute of \<open>self\<close>. The second component is the dataset after
  the call.
\<close>

definition GlobBiomass_getitem ::
  "('g, 'q, 'px) raster_methods \<Rightarrow> ('g, 'q, 'px) globbiomass \<Rightarrow> 'q \<Rightarrow>
   (error + ('q, 'px) sample) \<times> ('g, 'q, 'px) globbiomass" where
  "GlobBiomass_getitem m self query =
     (case filter_index (intersects m) (index self) (disambiguate_slice m query) of
        Inl e \<Rightarrow> Inl e
      | Inr idx \<Rightarrow>
          if idx = [] then Inl IndexError
          else GlobBiomass_load m self query idx,
      self)"

subsection \<open>\<^verbatim>\<open>GlobBiomass._verify\<close> and the constructor\<close>

text \<open>
  The loop over the archives (lines 233 to 237). The result is the list of archives
  passed to \<^verbatim>\<open>extract_archive\<close>, in order, and the exception that stopped the loop,
  if any. \<^verbatim>\<open>self.md5s[filename]\<close> is evaluated only when \<open>checksum\<close> is set, and
  raises KeyError for a name the dictionary does not list.
\<close>

fun extract_zips :: "filesystem \<Rightarrow> bool \<Rightarrow> string list \<Rightarrow> string list \<times> error option" where
  "extract_zips fs ck [] = ([], None)"
| "extract_zips fs ck (zipfile # rest) =
     (if ck then
        (case md5s (os_path_basename zipfile) of
           None \<Rightarrow> ([], Some KeyError)
         | Some md5 \<Rightarrow>
             if \<not> check_integrity fs zipfile md5 then ([], Some RuntimeError)
             else (zipfile # fst (extract_zips fs ck rest), snd (extract_zips fs ck rest)))
      else (zipfile # fst (extract_zips fs ck rest), snd (extract_zips fs ck rest)))"

definition GlobBiomass_verify ::
  "filesystem \<Rightarrow> paths \<Rightarrow> string \<Rightarrow> bool \<Rightarrow> string \<Rightarrow> string list \<times> error option" where
  "GlobBiomass_verify fs ps meas ck fglob =
     (if files fs ps fglob \<noteq> [] then ([], None)
      else
        (case ps of
           Paths _ \<Rightarrow> ([], Some AssertionError)
         | Path p \<Rightarrow>
             (let pathname = os_path_join p (''*_'' @ meas @ ''.zip'') in
              if glob fs pathname \<noteq> [] then extract_zips fs ck (glob fs pathname)
              else ([], Some DatasetNotFoundError))))"

text \<open>
  The constructor. \<open>raster_init\<close> is \<^verbatim>\<open>RasterDataset.__init__\<close>, which builds the index,
  the CRS and the bounds from the files or raises. The result is the list of extracted
  archives and the dataset or the exception.
\<close>

definition GlobBiomass_init ::
  "filesystem \<Rightarrow>
   (paths \<Rightarrow> string \<Rightarrow> string option \<Rightarrow> 'r \<Rightarrow>
      error + (('g, string) row list \<times> string \<times> slices)) \<Rightarrow>
   paths \<Rightarrow> string option \<Rightarrow> 'r \<Rightarrow> string \<Rightarrow>
   (('q, 'px) sample \<Rightarrow> ('q, 'px) sample) option \<Rightarrow> bool \<Rightarrow>
   string list \<times> (error + ('g, 'q, 'px) globbiomass)" where
  "GlobBiomass_init fs raster_init ps crs_arg res meas tr ck =
     (if meas \<notin> set measurements then ([], Inl AssertionError)
      else
        (let fglob = format_filename_glob meas in
         case GlobBiomass_verify fs ps meas ck fglob of
           (extracted, Some e) \<Rightarrow> (extracted, Inl e)
         | (extracted, None) \<Rightarrow>
             (case raster_init ps fglob crs_arg res of
                Inl e \<Rightarrow> (extracted, Inl e)
              | Inr (idx, c, b) \<Rightarrow>
                  (extracted,
                   Inr \<lparr>index = idx, dataset_crs = c, dataset_bounds = b, transforms = tr,
                        paths = ps, measurement = meas, checksum = ck,
                        filename_glob = fglob\<rparr>))))"

section \<open>EnviroAtlas\<close>

subsection \<open>Class attributes\<close>

definition EnviroAtlas_url :: string where
  "EnviroAtlas_url = ''https://zenodo.org/records/5778193/files/enviroatlas_lotp.zip?download=1''"

definition EnviroAtlas_filename :: string where
  "EnviroAtlas_filename = ''enviroatlas_lotp.zip''"

definition valid_prior_layers :: "string list" where
  "valid_prior_layers = [''prior'', ''prior_no_osm_no_buildings'']"

definition valid_layers :: "string list" where
  "valid_layers =
     [''naip'', ''nlcd'', ''roads'', ''water'', ''waterways'', ''waterbodies'',
      ''buildings'', ''lc''] @ valid_prior_layers"



text \<open>The files \<^verbatim>\<open>_files\<close> whose presence means that the archive was extracted.\<close>

definition EnviroAtlas_files :: "string list" where
  "EnviroAtlas_files =
    [''austin_tx-2012_1m-test_tiles-debuffered'',
     ''austin_tx-2012_1m-val5_tiles-debuffered'',
     ''durham_nc-2012_1m-test_tiles-debuffered'',
     ''durham_nc-2012_1m-val5_tiles-debuffered'',
     ''phoenix_az-2010_1m-test_tiles-debuffered'',
     ''phoenix_az-2010_1m-val5_tiles-debuffered'',
     ''pittsburgh_pa-2010_1m-test_tiles-debuffered'',
     ''pittsburgh_pa-2010_1m-train_tiles-debuffered'',
     ''pittsburgh_pa-2010_1m-val5_tiles-debuffered'',
     ''pittsburgh_pa-2010_1m-val_tiles-debuffered'',
     ''austin_tx-2012_1m-test_tiles-debuffered/3009726_sw_a_naip.tif'',
     ''austin_tx-2012_1m-test_tiles-debuffered/3009726_sw_b_nlcd.tif'',
     ''austin_tx-2012_1m-test_tiles-debuffered/3009726_sw_c_roads.tif'',
     ''austin_tx-2012_1m-test_tiles-debuffered/3009726_sw_d1_waterways.tif'',
     ''austin_tx-2012_1m-test_tiles-debuffered/3009726_sw_d2_waterbodies.tif'',
     ''austin_tx-2012_1m-test_tiles-debuffered/3009726_sw_d_water.tif'',
     ''austin_tx-2012_1m-test_tiles-debuffered/3009726_sw_e_buildings.tif'',
     ''austin_tx-2012_1m-test_tiles-debuffered/3009726_sw_h_highres_labels.tif'',
     ''austin_tx-2012_1m-test_tiles-debuffered/3009726_sw_prior_from_cooccurrences_101_31.tif'',
     ''austin_tx-2012_1m-test_tiles-debuffered/3009726_sw_prior_from_cooccurrences_101_31_no_osm_no_buildings.tif'',
     ''spatial_index.geojson'']"

definition p_src_crs :: string where
  "p_src_crs = ''epsg:3857''"

type_synonym point = "real \<times> real"

text \<open>
  The dictionary \<^verbatim>\<open>p_transformers\<close>. Its values are built by pyproj, a parameter:
  \<open>pyproj src dst\<close> is \<^verbatim>\<open>Transformer.from_crs(src, dst, always_xy=True).transform\<close>.
\<close>

definition p_transformers ::
  "(string \<Rightarrow> string \<Rightarrow> point \<Rightarrow> point) \<Rightarrow> string \<rightharpoonup> (point \<Rightarrow> point)" where
  "p_transformers pyproj =
     map_of
       [(''epsg:26917'', pyproj p_src_crs ''epsg:26917''),
        (''epsg:26918'', pyproj p_src_crs ''epsg:26918''),
        (''epsg:26914'', pyproj p_src_crs ''epsg:26914''),
        (''epsg:26912'', pyproj p_src_crs ''epsg:26912'')]"

text \<open>The array \<^verbatim>\<open>raw_enviroatlas_to_idx_map\<close>, of dtype \<^verbatim>\<open>np.uint8\<close>.\<close>

definition raw_enviroatlas_to_idx_map :: "nat list" where
  "raw_enviroatlas_to_idx_map =
    [0, 0, 0, 0, 0, 0, 0, 0, 0, 0,
     1, 0, 0, 0, 0, 0, 0, 0, 0, 0,
     2, 0, 0, 0, 0, 0, 0, 0, 0, 0,
     3, 0, 0, 0, 0, 0, 0, 0, 0, 0,
     4, 0, 0, 0, 0, 0, 0, 0, 0, 0,
     0, 0, 5, 0, 0, 0, 0, 0, 0, 0,
     0, 0, 0, 0, 0, 0, 0, 0, 0, 0,
     6, 0, 0, 0, 0, 0, 0, 0, 0, 0,
     7, 0, 8, 0, 0, 0, 0, 0, 0, 0,
     0, 9, 10]"

subsection \<open>Library primitives of \<^verbatim>\<open>EnviroAtlas.__getitem__\<close>\<close>

text \<open>\<^verbatim>\<open>str.lower\<close> on ASCII letters.\<close>

definition char_lower :: "char \<Rightarrow> char" where
  "char_lower c =
     (case map_of (zip ''ABCDEFGHIJKLMNOPQRSTUVWXYZ'' ''abcdefghijklmnopqrstuvwxyz'') c of
        None \<Rightarrow> c
      | Some l \<Rightarrow> l)"

definition str_lower :: "string \<Rightarrow> string" where
  "str_lower s = map char_lower s"

text \<open>
  \<^verbatim>\<open>table[data]\<close> with an array of integers as the index: every pixel is replaced by
  the entry of the table at that position; a negative pixel counts from the end of the
  table, and a pixel outside the table raises IndexError.
\<close>

definition np_index :: "nat list \<Rightarrow> int tensor \<Rightarrow> error + int tensor" where
  "np_index table data =
     (if \<forall>band \<in> set (bands data). \<forall>v \<in> set band.
           - int (length table) \<le> v \<and> v < int (length table)
      then Inr \<lparr>hw = hw data,
                bands = map (map (\<lambda>v. int (table !
                          nat (if v < 0 then v + int (length table) else v))))
                        (bands data)\<rparr>
      else Inl IndexError)"

text \<open>The ring of \<^verbatim>\<open>shapely.geometry.box\<close>, in shapely's order.\<close>

definition box_corners :: "box \<Rightarrow> point list" where
  "box_corners b =
     [(maxx b, miny b), (maxx b, maxy b), (minx b, maxy b), (minx b, miny b)]"

text \<open>
  \<^verbatim>\<open>shapely.ops.transform(func, query_box).envelope\<close>: \<open>func\<close> is applied to every
  vertex of the box, and the envelope is the smallest axis-parallel rectangle that
  holds the transformed vertices.
\<close>

definition transform_envelope :: "(point \<Rightarrow> point) \<Rightarrow> box \<Rightarrow> box" where
  "transform_envelope func b =
     (let ps = map func (box_corners b); xs = map fst ps; ys = map snd ps
      in \<lparr>minx = Min (set xs), miny = Min (set ys),
          maxx = Max (set xs), maxy = Max (set ys)\<rparr>)"

subsection \<open>The dataset\<close>

record ('g, 'q) enviroatlas = "('g, (string \<times> string) list, 'q, int) geo_dataset" +
  root :: string
  layers :: "string list"
  prior_as_input :: bool
  cache :: bool
  download :: bool
  checksum :: bool

text \<open>
  The raster library and pyproj, as parameters: \<open>raster_crs path\<close> is
  \<^verbatim>\<open>f.crs.to_string()\<close> for the file opened at \<open>path\<close>, \<open>rasterio_mask path geom\<close> is
  \<^verbatim>\<open>rasterio.mask.mask(f, [geom], crop=True, all_touched=True)\<close> for that file; \<open>None\<close>
  means that the library raised, reported as \<open>RasterioIOError\<close>.
\<close>

record ('g, 'q) enviroatlas_methods = "('g, 'q) geo_methods" +
  raster_crs :: "string \<Rightarrow> string option"
  rasterio_mask :: "string \<Rightarrow> box \<Rightarrow> int tensor option"
  pyproj :: "string \<Rightarrow> string \<Rightarrow> point \<Rightarrow> point"

subsection \<open>\<^verbatim>\<open>EnviroAtlas.__getitem__\<close>\<close>

text \<open>
  Lines 374 to 391, for one layer: the file is opened, the query box is transformed if
  no layer did it before (\<open>query_geom_transformed\<close> is \<open>None\<close>), and the raster is
  cropped. The result is the value of \<open>query_geom_transformed\<close> after the step and the
  data read.
\<close>

definition read_layer ::
  "('g, 'q) enviroatlas_methods \<Rightarrow> ('g, 'q) enviroatlas \<Rightarrow> (string \<times> string) list \<Rightarrow>
   box \<Rightarrow> string \<Rightarrow> box option \<Rightarrow> error + (box \<times> int tensor)" where
  "read_layer m self filenames qbox layer query_geom_transformed =
     (case map_of filenames layer of
        None \<Rightarrow> Inl KeyError
      | Some fn \<Rightarrow>
          (let path = os_path_join (os_path_join (root self) ''enviroatlas_lotp'') fn in
           case raster_crs m path of
             None \<Rightarrow> Inl RasterioIOError
           | Some c \<Rightarrow>
               (let dst_crs = str_lower c in
                case (case query_geom_transformed of
                        None \<Rightarrow>
                          (case p_transformers (pyproj m) dst_crs of
                             None \<Rightarrow> Inl KeyError
                           | Some func \<Rightarrow> Inr (transform_envelope func qbox))
                      | Some g \<Rightarrow> Inr g) of
                  Inl e \<Rightarrow> Inl e
                | Inr g \<Rightarrow>
                    (case rasterio_mask m path g of
                       None \<Rightarrow> Inl RasterioIOError
                     | Some data \<Rightarrow> Inr (g, data)))))"

text \<open>Lines 393 to 409: where the data of a layer goes.\<close>

definition append_layer ::
  "('g, 'q) enviroatlas \<Rightarrow> string \<Rightarrow> int tensor \<Rightarrow> int tensor list \<times> int tensor list \<Rightarrow>
   error + (int tensor list \<times> int tensor list)" where
  "append_layer self layer data acc =
     (if layer \<in> set [''naip'', ''buildings'', ''roads'', ''waterways'', ''waterbodies'',
                       ''water'']
      then Inr (fst acc @ [data], snd acc)
      else if layer \<in> set [''prior'', ''prior_no_osm_no_buildings'']
      then (if prior_as_input self then Inr (fst acc @ [data], snd acc)
            else Inr (fst acc, snd acc @ [data]))
      else if layer \<in> set [''lc'']
      then (case np_index raw_enviroatlas_to_idx_map data of
              Inl e \<Rightarrow> Inl e
            | Inr data' \<Rightarrow> Inr (fst acc, snd acc @ [data']))
      else Inr acc)"

text \<open>
  The loop \<^verbatim>\<open>for layer in self.layers\<close>. The state is \<open>query_geom_transformed\<close> and
  the two lists \<^verbatim>\<open>sample['image']\<close> and \<^verbatim>\<open>sample['mask']\<close>.
\<close>

fun layers_loop ::
  "('g, 'q) enviroatlas_methods \<Rightarrow> ('g, 'q) enviroatlas \<Rightarrow> (string \<times> string) list \<Rightarrow>
   box \<Rightarrow> string list \<Rightarrow> box option \<Rightarrow> int tensor list \<times> int tensor list \<Rightarrow>
   error + (int tensor list \<times> int tensor list)" where
  "layers_loop m self filenames qbox [] g acc = Inr acc"
| "layers_loop m self filenames qbox (layer # rest) g acc =
     (case read_layer m self filenames qbox layer g of
        Inl e \<Rightarrow> Inl e
      | Inr (g', data) \<Rightarrow>
          (case append_layer self layer data acc of
             Inl e \<Rightarrow> Inl e
           | Inr acc' \<Rightarrow> layers_loop m self filenames qbox rest (Some g') acc'))"

text \<open>The branch \<^verbatim>\<open>len(index) == 1\<close> and lines 413 to 422.\<close>

definition EnviroAtlas_load ::
  "('g, 'q) enviroatlas_methods \<Rightarrow> ('g, 'q) enviroatlas \<Rightarrow> 'q \<Rightarrow> slices \<Rightarrow>
   ('g, (string \<times> string) list) row \<Rightarrow> error + ('q, int) sample" where
  "EnviroAtlas_load m self query s filenames =
     (case layers_loop m self (columns filenames) (query_box s) (layers self) None ([], []) of
        Inl e \<Rightarrow> Inl e
      | Inr (images, masks) \<Rightarrow>
          (case np_concatenate images of
             Inl e \<Rightarrow> Inl e
           | Inr image1 \<Rightarrow>
               (case np_concatenate masks of
                  Inl e \<Rightarrow> Inl e
                | Inr mask1 \<Rightarrow>
                    (let sample = \<lparr>image = Some image1, mask = mask1,
                                    crs = dataset_crs self, bounds = query\<rparr>
                     in Inr (case transforms self of
                               None \<Rightarrow> sample
                             | Some f \<Rightarrow> f sample)))))"

text \<open>
  As for GlobBiomass, the second component is the dataset after the call: the body
  assigns to no attribute of \<open>self\<close>.
\<close>

definition EnviroAtlas_getitem ::
  "('g, 'q) enviroatlas_methods \<Rightarrow> ('g, 'q) enviroatlas \<Rightarrow> 'q \<Rightarrow>
   (error + ('q, int) sample) \<times> ('g, 'q) enviroatlas" where
  "EnviroAtlas_getitem m self query =
     (let s = disambiguate_slice m query in
      case filter_index (intersects m) (index self) s of
        Inl e \<Rightarrow> Inl e
      | Inr idx \<Rightarrow>
          if idx = [] then Inl IndexError
          else if length idx = 1 then EnviroAtlas_load m self query s (idx ! 0)
          else Inl IndexError,
      self)"

subsection \<open>\<^verbatim>\<open>EnviroAtlas._verify\<close> and the constructor\<close>

datatype action = Download string string | Extract string

text \<open>
  The result is the list of requests made to \<^verbatim>\<open>download_url\<close> (the URL and the
  directory) and \<^verbatim>\<open>extract_archive\<close> (the archive), in order, and the exception
  raised, if any.
\<close>

definition EnviroAtlas_verify ::
  "filesystem \<Rightarrow> string \<Rightarrow> bool \<Rightarrow> action list \<times> error option" where
  "EnviroAtlas_verify fs rt dl =
     (if list_all (\<lambda>filename.
            exists fs (os_path_join (os_path_join rt ''enviroatlas_lotp'') filename))
          EnviroAtlas_files
      then ([], None)
      else if exists fs (os_path_join rt EnviroAtlas_filename)
      then ([Extract (os_path_join rt EnviroAtlas_filename)], None)
      else if \<not> dl then ([], Some DatasetNotFoundError)
      else ([Download EnviroAtlas_url rt,
             Extract (os_path_join rt EnviroAtlas_filename)], None))"

text \<open>One feature of \<^verbatim>\<open>spatial_index.geojson\<close>: its geometry and its properties.\<close>

record 'g feature =
  feature_geometry :: 'g
  split :: string
  naip :: string
  nlcd :: string
  roads :: string
  water :: string
  waterways :: string
  waterbodies :: string
  buildings :: string
  lc :: string

text \<open>Lines 310 to 332: the index entry, the geometry and the columns of one tile.\<close>

definition index_row :: "'g feature \<Rightarrow> ('g, (string \<times> string) list) row" where
  "index_row f =
     \<lparr>datetime = \<lparr>iv_left = Timestamp_min, iv_right = Timestamp_max,
                  iv_closed = closed_both\<rparr>,
      geometry = feature_geometry f,
      columns =
        [(''naip'', naip f), (''nlcd'', nlcd f), (''roads'', roads f),
         (''water'', water f), (''waterways'', waterways f),
         (''waterbodies'', waterbodies f), (''buildings'', buildings f),
         (''lc'', lc f),
         (''prior_no_osm_no_buildings'',
            str_replace ''a_naip'' ''prior_from_cooccurrences_101_31_no_osm_no_buildings''
              (naip f)),
         (''prior'', str_replace ''a_naip'' ''prior_from_cooccurrences_101_31'' (naip f))]\<rparr>"

definition build_index ::
  "'g feature list \<Rightarrow> string list \<Rightarrow> ('g, (string \<times> string) list) row list" where
  "build_index features splits =
     map index_row (filter (\<lambda>f. split f \<in> set splits) features)"


section \<open>Descriptions used in the statements\<close>




section \<open>Example inputs\<close>

text \<open>
  Two adjacent tiles of a GlobBiomass index, valid from time 0 to time 10, and queries
  that are already complete, so that \<^verbatim>\<open>_disambiguate_slice\<close> returns them as they are.
\<close>

definition example_tile_A :: "(box, string) row" where
  "example_tile_A =
     \<lparr>datetime = \<lparr>iv_left = 0, iv_right = 10, iv_closed = closed_both\<rparr>,
      geometry = \<lparr>minx = 0, miny = 0, maxx = 10, maxy = 10\<rparr>,
      columns = ''data/N00E020_agb.tif''\<rparr>"

definition example_tile_B :: "(box, string) row" where
  "example_tile_B =
     \<lparr>datetime = \<lparr>iv_left = 0, iv_right = 10, iv_closed = closed_both\<rparr>,
      geometry = \<lparr>minx = 10, miny = 0, maxx = 20, maxy = 10\<rparr>,
      columns = ''data/N00E060_agb.tif''\<rparr>"

definition example_query :: "real \<Rightarrow> real \<Rightarrow> timestamp \<Rightarrow> timestamp \<Rightarrow> slices" where
  "example_query x0 x1 t0 t1 =
     \<lparr>x_start = x0, x_stop = x1, y_start = 2, y_stop = 4,
      t_start = t0, t_stop = t1, t_step = Some 1\<rparr>"

text \<open>
  A merge that returns one band of one pixel: the number of files merged for the
  estimates, its negation for the standard errors.
\<close>

definition example_merge :: "string list \<Rightarrow> slices \<Rightarrow> int tensor option" where
  "example_merge fps q =
     (if fps = [] then None
      else if \<forall>fp \<in> set fps. str_replace ''_err.tif'' [] fp = fp
      then Some \<lparr>hw = (1, 1), bands = [[int (length fps)]]\<rparr>
      else Some \<lparr>hw = (1, 1), bands = [[- int (length fps)]]\<rparr>)"

definition example_raster_methods :: "(box, slices, int) raster_methods" where
  "example_raster_methods =
     \<lparr>intersects = box_intersects, disambiguate_slice = (\<lambda>q. q),
      merge_files = example_merge\<rparr>"

definition example_globbiomass :: "(box, slices, int) globbiomass" where
  "example_globbiomass =
     \<lparr>index = [example_tile_A, example_tile_B], dataset_crs = ''EPSG:4326'',
      dataset_bounds = example_query 0 20 0 10, transforms = None,
      paths = Path ''data'', measurement = ''agb'', checksum = False,
      filename_glob = ''*_agb.tif''\<rparr>"

text \<open>
  A file system with one extracted file under \<open>data\<close> and two archives under \<open>zips\<close>,
  the second of them corrupted.
\<close>

definition example_fs :: filesystem where
  "example_fs =
     \<lparr>files = (\<lambda>ps g. if ps = Path ''data'' then [''data/N00E020_agb.tif''] else []),
      glob = (\<lambda>pathname. if pathname = ''zips/*_agb.zip''
                then [''zips/N00E020_agb.zip'', ''zips/N00E060_agb.zip''] else []),
      check_integrity = (\<lambda>fp md5. fp = ''zips/N00E020_agb.zip''),
      exists = (\<lambda>fp. False)\<rparr>"

definition example_raster_init ::
  "paths \<Rightarrow> string \<Rightarrow> string option \<Rightarrow> unit \<Rightarrow>
   error + ((box, string) row list \<times> string \<times> slices)" where
  "example_raster_init ps g c r =
     Inr ([example_tile_A], ''EPSG:4326'', example_query 0 10 0 10)"

text \<open>
  Two features of \<^verbatim>\<open>spatial_index.geojson\<close> for the same two tiles, an EnviroAtlas
  dataset over them, and a raster library in which every file has the CRS EPSG:26917,
  but for the land cover labels of the first tile, which have EPSG:26918.
\<close>

definition example_feature :: "string \<Rightarrow> box \<Rightarrow> box feature" where
  "example_feature tile g =
     \<lparr>feature_geometry = g, split = ''pittsburgh_pa-2010_1m-train'',
      naip = tile @ ''_a_naip.tif'', nlcd = tile @ ''_b_nlcd.tif'',
      roads = tile @ ''_c_roads.tif'', water = tile @ ''_d_water.tif'',
      waterways = tile @ ''_d1_waterways.tif'', waterbodies = tile @ ''_d2_waterbodies.tif'',
      buildings = tile @ ''_e_buildings.tif'', lc = tile @ ''_h_highres_labels.tif''\<rparr>"

definition example_features :: "box feature list" where
  "example_features =
     [example_feature ''t1'' \<lparr>minx = 0, miny = 0, maxx = 10, maxy = 10\<rparr>,
      example_feature ''t2'' \<lparr>minx = 10, miny = 0, maxx = 20, maxy = 10\<rparr>]"

definition example_raster_crs :: "string \<Rightarrow> string option" where
  "example_raster_crs path =
     (if path = ''data/enviroatlas_lotp/t1_h_highres_labels.tif'' then Some ''EPSG:26918''
      else Some ''EPSG:26917'')"

definition example_rasterio_mask :: "string \<Rightarrow> box \<Rightarrow> int tensor option" where
  "example_rasterio_mask path g =
     (if path = ''data/enviroatlas_lotp/t1_a_naip.tif''
      then Some \<lparr>hw = (1, 1), bands = [[7], [8]]\<rparr>
      else if path = ''data/enviroatlas_lotp/t1_b_nlcd.tif''
      then Some \<lparr>hw = (1, 1), bands = [[21]]\<rparr>
      else if path = ''data/enviroatlas_lotp/t1_h_highres_labels.tif''
      then Some \<lparr>hw = (1, 1), bands = [[52]]\<rparr>
      else Some \<lparr>hw = (1, 1), bands = [[1]]\<rparr>)"

definition example_pyproj :: "string \<Rightarrow> string \<Rightarrow> point \<Rightarrow> point" where
  "example_pyproj src dst p =
     (if dst = ''epsg:26917'' then (fst p + 100, snd p) else (fst p + 200, snd p + 1))"

definition example_enviroatlas_methods :: "(box, slices) enviroatlas_methods" where
  "example_enviroatlas_methods =
     \<lparr>intersects = box_intersects, disambiguate_slice = (\<lambda>q. q),
      raster_crs = example_raster_crs, rasterio_mask = example_rasterio_mask,
      pyproj = example_pyproj\<rparr>"

definition example_enviroatlas :: "string list \<Rightarrow> (box, slices) enviroatlas" where
  "example_enviroatlas lrs =
     \<lparr>index = build_index example_features [''pittsburgh_pa-2010_1m-train''],
      dataset_crs = ''EPSG:3857'', dataset_bounds = example_query 0 20 0 10,
      transforms = None, root = ''data'', layers = lrs, prior_as_input = False,
      cache = True, download = False, checksum = False\<rparr>"

text \<open>A file system that holds the archive of EnviroAtlas and nothing else.\<close>

definition example_enviroatlas_fs :: filesystem where
  "example_enviroatlas_fs =
     \<lparr>files = (\<lambda>ps g. []), glob = (\<lambda>pathname. []), check_integrity = (\<lambda>fp md5. True),
      exists = (\<lambda>fp. fp = ''data/enviroatlas_lotp.zip'')\<rparr>"



text \<open>
  The crops made by the loop of \<^verbatim>\<open>EnviroAtlas.__getitem__\<close>: for every layer whose raster
  was read, in order, the geometry that was passed to \<^verbatim>\<open>rasterio.mask.mask\<close>. The
  function follows \<open>layers_loop\<close> step by step and stops where the loop stops.
\<close>

fun layers_crops ::
  "('g, 'q) enviroatlas_methods \<Rightarrow> ('g, 'q) enviroatlas \<Rightarrow> (string \<times> string) list \<Rightarrow>
   box \<Rightarrow> string list \<Rightarrow> box option \<Rightarrow> int tensor list \<times> int tensor list \<Rightarrow>
   (string \<times> box) list" where
  "layers_crops m self filenames qbox [] g acc = []"
| "layers_crops m self filenames qbox (layer # rest) g acc =
     (case read_layer m self filenames qbox layer g of
        Inl e \<Rightarrow> []
      | Inr (g', data) \<Rightarrow>
          (layer, g') #
          (case append_layer self layer data acc of
             Inl e \<Rightarrow> []
           | Inr acc' \<Rightarrow> layers_crops m self filenames qbox rest (Some g') acc'))"


text \<open>
  An archive whose file name is listed in \<^verbatim>\<open>md5s\<close> and whose MD5 is the listed one.
\<close>

definition archive_intact :: "filesystem \<Rightarrow> string \<Rightarrow> bool" where
  "archive_intact fs zipfile \<longleftrightarrow>
     (\<exists>md5. md5s (os_path_basename zipfile) = Some md5 \<and> check_integrity fs zipfile md5)"

section \<open>Properties\<close>

subsection \<open>Helper lemmas\<close>

lemma every_nth_one: "every_nth (Suc 0) xs = xs"
  by (induction xs) simp_all

lemma iloc_step_one: "iloc_step (Some 1) xs = Inr xs"
  by (simp add: iloc_step_def every_nth_one)



subsection \<open>The constructor of GlobBiomass checks the measurement\<close>



lemmas example_defs =
  example_tile_A_def example_tile_B_def example_query_def example_merge_def
  example_raster_methods_def example_globbiomass_def example_feature_def
  example_features_def example_raster_crs_def example_rasterio_mask_def example_pyproj_def
  example_enviroatlas_methods_def example_enviroatlas_def build_index_def index_row_def

lemmas getitem_defs =
  GlobBiomass_getitem_def GlobBiomass_load_def filepath_def torch_cat_def
  EnviroAtlas_getitem_def EnviroAtlas_load_def read_layer_def append_layer_def
  filter_index_def pd_Interval_def iloc_step_one cx_def overlaps_def closed_left_side_def
  closed_right_side_def box_intersects_def query_box_def Timestamp_min_def Timestamp_max_def
  os_path_join_def str_lower_def char_lower_def p_transformers_def p_src_crs_def
  transform_envelope_def box_corners_def np_index_def raw_enviroatlas_to_idx_map_def
  np_concatenate_def

subsection \<open>Which tiles a query uses\<close>






subsection \<open>When \<^verbatim>\<open>__getitem__\<close> raises IndexError\<close>

lemma filter_index_error: "filter_index isect idx s = Inl e \<Longrightarrow> e = ValueError"
  by (auto simp: filter_index_def pd_Interval_def iloc_step_def
      split: if_splits sum.splits option.splits)

lemma GlobBiomass_load_error:
  "GlobBiomass_load m self query idx = Inl e \<Longrightarrow> e = RasterioIOError \<or> e = RuntimeError"
  by (auto simp: GlobBiomass_load_def torch_cat_def Let_def
      split: option.splits sum.splits if_splits)

text \<open>
  C3, as the code has it. GlobBiomass raises IndexError exactly when the filtered index
  is empty, and returns a sample only when it is not. EnviroAtlas raises IndexError
  whenever the filtered index does not have exactly one row (no row, or several), and
  returns a sample only when it has exactly one. So neither class returns a sample
  for a query that intersects nothing. (Other exceptions are possible: ValueError for
  \<open>tmin > tmax\<close> or a zero step, the errors of the raster library, and so on.)
\<close>

theorem IndexError_cases:
  "(fst (GlobBiomass_getitem m gb q) = Inl IndexError \<longleftrightarrow>
      filter_index (intersects m) (index gb) (disambiguate_slice m q) = Inr []) \<and>
   (fst (GlobBiomass_getitem m gb q) = Inr smp \<longrightarrow>
      (\<exists>T. filter_index (intersects m) (index gb) (disambiguate_slice m q) = Inr T \<and> T \<noteq> [])) \<and>
   (\<forall>T'. filter_index (intersects m') (index ea) (disambiguate_slice m' q') = Inr T' \<and>
          length T' \<noteq> 1 \<longrightarrow>
      fst (EnviroAtlas_getitem m' ea q') = Inl IndexError) \<and>
   (fst (EnviroAtlas_getitem m' ea q') = Inr smp' \<longrightarrow>
      (\<exists>r. filter_index (intersects m') (index ea) (disambiguate_slice m' q') = Inr [r]))"
proof (intro conjI)
  show "fst (GlobBiomass_getitem m gb q) = Inl IndexError \<longleftrightarrow>
      filter_index (intersects m) (index gb) (disambiguate_slice m q) = Inr []"
    by (auto simp: GlobBiomass_getitem_def split: sum.splits if_splits
        dest: filter_index_error GlobBiomass_load_error)
  show "fst (GlobBiomass_getitem m gb q) = Inr smp \<longrightarrow>
      (\<exists>T. filter_index (intersects m) (index gb) (disambiguate_slice m q) = Inr T \<and> T \<noteq> [])"
    by (auto simp: GlobBiomass_getitem_def split: sum.splits if_splits)
  show "\<forall>T'. filter_index (intersects m') (index ea) (disambiguate_slice m' q') = Inr T' \<and>
          length T' \<noteq> 1 \<longrightarrow>
      fst (EnviroAtlas_getitem m' ea q') = Inl IndexError"
    by (auto simp: EnviroAtlas_getitem_def Let_def)
  show "fst (EnviroAtlas_getitem m' ea q') = Inr smp' \<longrightarrow>
      (\<exists>r. filter_index (intersects m') (index ea) (disambiguate_slice m' q') = Inr [r])"
    by (auto simp: EnviroAtlas_getitem_def Let_def length_Suc_conv
        split: sum.splits if_splits)
qed

theorem IndexError_cases_witness:
  "fst (GlobBiomass_getitem example_raster_methods example_globbiomass
         (example_query 100 100 0 0)) = Inl IndexError \<and>
   fst (EnviroAtlas_getitem example_enviroatlas_methods (example_enviroatlas [''naip'', ''lc''])
         (example_query 5 15 0 10)) = Inl IndexError \<and>
   filter_index box_intersects (index example_globbiomass) (example_query 1 3 0 10) =
     Inr [example_tile_A]"
proof -
  let ?m = example_raster_methods and ?gb = example_globbiomass
  let ?m' = example_enviroatlas_methods and ?ea = "example_enviroatlas [''naip'', ''lc'']"
  have a: "filter_index (intersects ?m) (index ?gb)
             (disambiguate_slice ?m (example_query 100 100 0 0)) = Inr []"
    by (simp add: example_defs getitem_defs)
  have b: "filter_index (intersects ?m') (index ?ea)
             (disambiguate_slice ?m' (example_query 5 15 0 10)) =
           Inr (build_index example_features [''pittsburgh_pa-2010_1m-train''])"
    by (simp add: example_defs getitem_defs)
  have c: "length (build_index example_features [''pittsburgh_pa-2010_1m-train'']) \<noteq> 1"
    by (simp add: example_defs)
  obtain smp where d: "fst (GlobBiomass_getitem ?m ?gb (example_query 1 3 0 10)) = Inr smp"
    by (simp add: example_defs getitem_defs)
  have e: "filter_index (intersects ?m) (index ?gb)
             (disambiguate_slice ?m (example_query 1 3 0 10)) = Inr [example_tile_A]"
    by (simp add: example_defs getitem_defs)
  from IndexError_cases [of ?m ?gb "example_query 100 100 0 0" smp ?m' ?ea
      "example_query 5 15 0 10"] a b c
  have "fst (GlobBiomass_getitem ?m ?gb (example_query 100 100 0 0)) = Inl IndexError"
    "fst (EnviroAtlas_getitem ?m' ?ea (example_query 5 15 0 10)) = Inl IndexError"
    by blast+
  moreover from IndexError_cases [of ?m ?gb "example_query 1 3 0 10" smp] d e
  have "filter_index box_intersects (index ?gb) (example_query 1 3 0 10) =
          Inr [example_tile_A]"
    by (simp add: example_raster_methods_def)
  ultimately show ?thesis by simp
qed

text \<open>
  The claim as it is worded has IndexError raised only for an empty filtered index. A
  query across the border of the two EnviroAtlas tiles leaves both and raises IndexError.
\<close>

theorem IndexError_not_only_empty_counterexample:
  "filter_index box_intersects (index (example_enviroatlas [''naip'', ''lc'']))
     (example_query 5 15 0 10) \<noteq> Inr [] \<and>
   fst (EnviroAtlas_getitem example_enviroatlas_methods (example_enviroatlas [''naip'', ''lc''])
         (example_query 5 15 0 10)) = Inl IndexError"
  by (simp add: example_defs getitem_defs)

subsection \<open>\<^verbatim>\<open>__getitem__\<close> leaves the dataset as it is\<close>

text \<open>
  C8. A call of \<^verbatim>\<open>__getitem__\<close> leaves the dataset (its index, CRS, bounds, layers,
  paths and every other attribute) unchanged, whatever the result. When \<open>transforms\<close>
  is \<open>None\<close>, the \<open>crs\<close> of a returned sample is the CRS of the dataset and its \<open>bounds\<close>
  is the query as it was given.
\<close>

theorem getitem_frame:
  "snd (GlobBiomass_getitem m gb q) = gb \<and>
   snd (EnviroAtlas_getitem m' ea q') = ea \<and>
   (transforms gb = None \<and> fst (GlobBiomass_getitem m gb q) = Inr smp \<longrightarrow>
      crs smp = dataset_crs gb \<and> bounds smp = q) \<and>
   (transforms ea = None \<and> fst (EnviroAtlas_getitem m' ea q') = Inr smp' \<longrightarrow>
      crs smp' = dataset_crs ea \<and> bounds smp' = q')"
  by (auto simp: GlobBiomass_getitem_def GlobBiomass_load_def EnviroAtlas_getitem_def
      EnviroAtlas_load_def Let_def split: sum.splits option.splits if_splits prod.splits)

theorem getitem_frame_witness:
  "snd (GlobBiomass_getitem example_raster_methods example_globbiomass
         (example_query 1 13 0 10)) = example_globbiomass \<and>
   (\<exists>smp. fst (GlobBiomass_getitem example_raster_methods example_globbiomass
                (example_query 1 13 0 10)) = Inr smp \<and>
          crs smp = ''EPSG:4326'' \<and> bounds smp = example_query 1 13 0 10) \<and>
   (\<exists>smp. fst (EnviroAtlas_getitem example_enviroatlas_methods
                (example_enviroatlas [''naip'', ''lc'']) (example_query 1 3 0 10)) = Inr smp \<and>
          crs smp = ''EPSG:3857'' \<and> bounds smp = example_query 1 3 0 10)"
proof -
  let ?m = example_raster_methods and ?gb = example_globbiomass
  let ?m' = example_enviroatlas_methods and ?ea = "example_enviroatlas [''naip'', ''lc'']"
  obtain smp where a: "fst (GlobBiomass_getitem ?m ?gb (example_query 1 13 0 10)) = Inr smp"
    by (simp add: example_defs getitem_defs)
  obtain smp' where b: "fst (EnviroAtlas_getitem ?m' ?ea (example_query 1 3 0 10)) = Inr smp'"
    by (simp add: example_defs getitem_defs)
  have c: "transforms ?gb = None" "transforms ?ea = None"
    "dataset_crs ?gb = ''EPSG:4326''" "dataset_crs ?ea = ''EPSG:3857''"
    by (simp_all add: example_defs)
  from getitem_frame [of ?m ?gb "example_query 1 13 0 10" ?m' ?ea "example_query 1 3 0 10"
      smp smp'] a b c
  show ?thesis by simp
qed

subsection \<open>A query that intersects tiles\<close>

text \<open>
  C1, as the code has it. Let one or more tiles be left by the two filters. Then
  \<^verbatim>\<open>GlobBiomass.__getitem__\<close> merges all of them, one or several, and returns the sample
  with the keys \<open>mask\<close>, \<open>crs\<close> and \<open>bounds\<close> whenever the raster library merges the
  estimate files and the standard error files into arrays of the same height and width.
  \<^verbatim>\<open>EnviroAtlas.__getitem__\<close> returns the sample with the keys \<open>image\<close>, \<open>mask\<close>, \<open>crs\<close>
  and \<open>bounds\<close> when exactly one tile is left, its layers can be read and both lists can
  be concatenated; when the query spans several tiles it raises IndexError: it merges
  no tiles.
\<close>

theorem getitem_returns_sample:
  "(filter_index (intersects m) (index gb) (disambiguate_slice m q) = Inr T \<and> T \<noteq> [] \<and>
    merge_files m (filepath T) q = Some a \<and>
    merge_files m (map (str_replace ''.tif'' ''_err.tif'') (filepath T)) q = Some b \<and>
    hw a = hw b \<longrightarrow>
      fst (GlobBiomass_getitem m gb q) =
        Inr (case transforms gb of
               None \<Rightarrow> \<lparr>image = None, mask = \<lparr>hw = hw a, bands = bands a @ bands b\<rparr>,
                         crs = dataset_crs gb, bounds = q\<rparr>
             | Some f \<Rightarrow> f \<lparr>image = None, mask = \<lparr>hw = hw a, bands = bands a @ bands b\<rparr>,
                           crs = dataset_crs gb, bounds = q\<rparr>)) \<and>
   (filter_index (intersects m') (index ea) (disambiguate_slice m' q') = Inr [r] \<and>
    layers_loop m' ea (columns r) (query_box (disambiguate_slice m' q')) (layers ea) None
      ([], []) = Inr (imgs, msks) \<and>
    np_concatenate imgs = Inr i \<and> np_concatenate msks = Inr k \<longrightarrow>
      fst (EnviroAtlas_getitem m' ea q') =
        Inr (case transforms ea of
               None \<Rightarrow> \<lparr>image = Some i, mask = k, crs = dataset_crs ea, bounds = q'\<rparr>
             | Some f \<Rightarrow> f \<lparr>image = Some i, mask = k, crs = dataset_crs ea, bounds = q'\<rparr>)) \<and>
   (filter_index (intersects m') (index ea) (disambiguate_slice m' q') = Inr T' \<and>
    2 \<le> length T' \<longrightarrow>
      fst (EnviroAtlas_getitem m' ea q') = Inl IndexError)"
proof (intro conjI impI)
  assume "filter_index (intersects m) (index gb) (disambiguate_slice m q) = Inr T \<and> T \<noteq> [] \<and>
    merge_files m (filepath T) q = Some a \<and>
    merge_files m (map (str_replace ''.tif'' ''_err.tif'') (filepath T)) q = Some b \<and>
    hw a = hw b"
  then show "fst (GlobBiomass_getitem m gb q) =
        Inr (case transforms gb of
               None \<Rightarrow> \<lparr>image = None, mask = \<lparr>hw = hw a, bands = bands a @ bands b\<rparr>,
                         crs = dataset_crs gb, bounds = q\<rparr>
             | Some f \<Rightarrow> f \<lparr>image = None, mask = \<lparr>hw = hw a, bands = bands a @ bands b\<rparr>,
                           crs = dataset_crs gb, bounds = q\<rparr>)"
    by (auto simp: GlobBiomass_getitem_def GlobBiomass_load_def torch_cat_def Let_def
        split: option.splits)
next
  assume "filter_index (intersects m') (index ea) (disambiguate_slice m' q') = Inr [r] \<and>
    layers_loop m' ea (columns r) (query_box (disambiguate_slice m' q')) (layers ea) None
      ([], []) = Inr (imgs, msks) \<and>
    np_concatenate imgs = Inr i \<and> np_concatenate msks = Inr k"
  then show "fst (EnviroAtlas_getitem m' ea q') =
        Inr (case transforms ea of
               None \<Rightarrow> \<lparr>image = Some i, mask = k, crs = dataset_crs ea, bounds = q'\<rparr>
             | Some f \<Rightarrow> f \<lparr>image = Some i, mask = k, crs = dataset_crs ea, bounds = q'\<rparr>)"
    by (simp add: EnviroAtlas_getitem_def EnviroAtlas_load_def Let_def)
next
  assume "filter_index (intersects m') (index ea) (disambiguate_slice m' q') = Inr T' \<and>
    2 \<le> length T'"
  then show "fst (EnviroAtlas_getitem m' ea q') = Inl IndexError"
    by (auto simp: EnviroAtlas_getitem_def Let_def)
qed

theorem getitem_returns_sample_witness:
  "fst (GlobBiomass_getitem example_raster_methods example_globbiomass
         (example_query 1 13 0 10)) =
     Inr \<lparr>image = None, mask = \<lparr>hw = (1, 1), bands = [[2], [- 2]]\<rparr>, crs = ''EPSG:4326'',
          bounds = example_query 1 13 0 10\<rparr> \<and>
   fst (EnviroAtlas_getitem example_enviroatlas_methods
         (example_enviroatlas [''naip'', ''prior'']) (example_query 1 3 0 10)) =
     Inr \<lparr>image = Some \<lparr>hw = (1, 1), bands = [[7], [8]]\<rparr>,
          mask = \<lparr>hw = (1, 1), bands = [[1]]\<rparr>, crs = ''EPSG:3857'',
          bounds = example_query 1 3 0 10\<rparr> \<and>
   fst (EnviroAtlas_getitem example_enviroatlas_methods
         (example_enviroatlas [''naip'', ''prior'']) (example_query 10 10 0 10)) =
     Inl IndexError"
proof -
  let ?m = example_raster_methods and ?gb = example_globbiomass
  let ?q = "example_query 1 13 0 10"
  let ?m' = example_enviroatlas_methods and ?ea = "example_enviroatlas [''naip'', ''prior'']"
  let ?q1 = "example_query 1 3 0 10" and ?q2 = "example_query 10 10 0 10"
  let ?r = "index_row (example_feature ''t1'' \<lparr>minx = 0, miny = 0, maxx = 10, maxy = 10\<rparr>)"
  let ?a = "\<lparr>hw = (1, 1), bands = [[2::int]]\<rparr>" and ?b = "\<lparr>hw = (1, 1), bands = [[- 2::int]]\<rparr>"
  let ?i = "\<lparr>hw = (1, 1), bands = [[7::int], [8]]\<rparr>" and ?k = "\<lparr>hw = (1, 1), bands = [[1::int]]\<rparr>"
  have gb: "filter_index (intersects ?m) (index ?gb) (disambiguate_slice ?m ?q) =
              Inr [example_tile_A, example_tile_B]"
    "merge_files ?m (filepath [example_tile_A, example_tile_B]) ?q = Some ?a"
    "merge_files ?m (map (str_replace ''.tif'' ''_err.tif'')
        (filepath [example_tile_A, example_tile_B])) ?q = Some ?b"
    "transforms ?gb = None" "dataset_crs ?gb = ''EPSG:4326''"
    by (simp_all add: example_defs getitem_defs)
  have ea1: "filter_index (intersects ?m') (index ?ea) (disambiguate_slice ?m' ?q1) = Inr [?r]"
    "layers_loop ?m' ?ea (columns ?r) (query_box (disambiguate_slice ?m' ?q1)) (layers ?ea)
       None ([], []) = Inr ([?i], [?k])"
    "np_concatenate [?i] = Inr ?i" "np_concatenate [?k] = Inr ?k"
    "transforms ?ea = None" "dataset_crs ?ea = ''EPSG:3857''"
    by (simp_all add: example_defs getitem_defs)
  have ea2: "filter_index (intersects ?m') (index ?ea) (disambiguate_slice ?m' ?q2) =
               Inr (index ?ea)" "2 \<le> length (index ?ea)"
    by (simp_all add: example_defs getitem_defs)
  from getitem_returns_sample [of ?m ?gb ?q "[example_tile_A, example_tile_B]" ?a ?b
      ?m' ?ea ?q1 ?r "[?i]" "[?k]" ?i ?k] gb ea1
  have 1: "fst (GlobBiomass_getitem ?m ?gb ?q) =
     Inr \<lparr>image = None, mask = \<lparr>hw = (1, 1), bands = [[2], [- 2]]\<rparr>, crs = ''EPSG:4326'',
          bounds = ?q\<rparr>"
    "fst (EnviroAtlas_getitem ?m' ?ea ?q1) =
     Inr \<lparr>image = Some ?i, mask = ?k, crs = ''EPSG:3857'', bounds = ?q1\<rparr>"
    by simp_all
  from getitem_returns_sample [of ?m ?gb ?q "[example_tile_A, example_tile_B]" ?a ?b
      ?m' ?ea ?q2 ?r "[?i]" "[?k]" ?i ?k "index ?ea"] ea2
  have "fst (EnviroAtlas_getitem ?m' ?ea ?q2) = Inl IndexError"
    by blast
  with 1 show ?thesis by simp
qed

text \<open>
  The claim as it is worded has both classes return a sample for a query that spans
  several tiles. A query across the border of the two EnviroAtlas tiles intersects both,
  and the call raises IndexError.
\<close>

theorem multiple_tiles_counterexample:
  "filter_index box_intersects (index (example_enviroatlas [''naip'', ''prior'']))
     (example_query 8 12 0 10) =
     Inr [index_row (example_feature ''t1'' \<lparr>minx = 0, miny = 0, maxx = 10, maxy = 10\<rparr>),
          index_row (example_feature ''t2'' \<lparr>minx = 10, miny = 0, maxx = 20, maxy = 10\<rparr>)] \<and>
   fst (EnviroAtlas_getitem example_enviroatlas_methods
         (example_enviroatlas [''naip'', ''prior'']) (example_query 8 12 0 10)) =
     Inl IndexError"
  by (simp add: example_defs getitem_defs)

subsection \<open>The time range of the EnviroAtlas index\<close>






subsection \<open>The land cover labels of EnviroAtlas\<close>












subsection \<open>The geometry a layer is cropped to\<close>









subsection \<open>Verification of the files at construction\<close>

lemma extract_zips_no_checksum: "extract_zips fs False zs = (zs, None)"
  by (induction zs) simp_all

lemma extract_zips_intact:
  "\<forall>z \<in> set good. archive_intact fs z \<Longrightarrow>
   extract_zips fs True (good @ rest) =
     (good @ fst (extract_zips fs True rest), snd (extract_zips fs True rest))"
  by (induction good) (auto simp: archive_intact_def)

lemma extract_zips_all_intact:
  "\<forall>z \<in> set zs. archive_intact fs z \<Longrightarrow> extract_zips fs True zs = (zs, None)"
  using extract_zips_intact [of zs fs "[]"] by simp

lemma extract_zips_corrupted:
  assumes "\<forall>z \<in> set good. archive_intact fs z"
    and "md5s (os_path_basename bad) = Some md5" and "\<not> check_integrity fs bad md5"
  shows "extract_zips fs True (good @ bad # rest) = (good, Some RuntimeError)"
  using assms by (simp add: extract_zips_intact)

lemma extract_zips_unlisted:
  assumes "\<forall>z \<in> set good. archive_intact fs z" and "md5s (os_path_basename bad) = None"
  shows "extract_zips fs True (good @ bad # rest) = (good, Some KeyError)"
  using assms by (simp add: extract_zips_intact)

text \<open>
  C6, as the code has it. \<^verbatim>\<open>_verify\<close> has a fixed precedence. GlobBiomass: if the
  extracted files exist, nothing is extracted and nothing is raised. Otherwise \<open>paths\<close>
  must be a single path (AssertionError for a collection of paths). If archives exist
  under it, they are extracted in order; when \<open>checksum\<close> is set, the MD5 of each archive
  is looked up under its file name (KeyError when the name is not listed) and checked
  (RuntimeError on a mismatch) before that archive is extracted, the archives before it
  having been extracted. With no archive, DatasetNotFoundError; and the constructor
  raises what \<^verbatim>\<open>_verify\<close> raises. EnviroAtlas: if all the files exist, nothing is done;
  otherwise the archive is extracted if it exists; otherwise DatasetNotFoundError unless
  \<open>download\<close> is set, in which case the archive is downloaded and extracted.
\<close>

theorem verify_precedence:
  "(files fs ps fglob \<noteq> [] \<longrightarrow> GlobBiomass_verify fs ps meas ck fglob = ([], None)) \<and>
   (files fs ps fglob = [] \<and> ps = Paths l \<longrightarrow>
      GlobBiomass_verify fs ps meas ck fglob = ([], Some AssertionError)) \<and>
   (files fs ps fglob = [] \<and> ps = Path p \<and>
    zs = glob fs (os_path_join p (''*_'' @ meas @ ''.zip'')) \<longrightarrow>
      (zs = [] \<longrightarrow> GlobBiomass_verify fs ps meas ck fglob = ([], Some DatasetNotFoundError)) \<and>
      (zs \<noteq> [] \<and> \<not> ck \<longrightarrow> GlobBiomass_verify fs ps meas ck fglob = (zs, None)) \<and>
      (zs \<noteq> [] \<and> ck \<and> (\<forall>z \<in> set zs. archive_intact fs z) \<longrightarrow>
         GlobBiomass_verify fs ps meas ck fglob = (zs, None)) \<and>
      (ck \<and> zs = good @ bad # rest \<and> (\<forall>z \<in> set good. archive_intact fs z) \<and>
       md5s (os_path_basename bad) = Some md5 \<and> \<not> check_integrity fs bad md5 \<longrightarrow>
         GlobBiomass_verify fs ps meas ck fglob = (good, Some RuntimeError)) \<and>
      (ck \<and> zs = good @ bad # rest \<and> (\<forall>z \<in> set good. archive_intact fs z) \<and>
       md5s (os_path_basename bad) = None \<longrightarrow>
         GlobBiomass_verify fs ps meas ck fglob = (good, Some KeyError))) \<and>
   (\<forall>ex e. meas \<in> set measurements \<and>
      GlobBiomass_verify fs ps meas ck (format_filename_glob meas) = (ex, Some e) \<longrightarrow>
      GlobBiomass_init fs ri ps c r meas tr ck = (ex, Inl e)) \<and>
   (list_all (\<lambda>filename.
        exists fs (os_path_join (os_path_join rt ''enviroatlas_lotp'') filename))
      EnviroAtlas_files \<longrightarrow> EnviroAtlas_verify fs rt dl = ([], None)) \<and>
   (\<not> list_all (\<lambda>filename.
        exists fs (os_path_join (os_path_join rt ''enviroatlas_lotp'') filename))
      EnviroAtlas_files \<longrightarrow>
      (exists fs (os_path_join rt EnviroAtlas_filename) \<longrightarrow>
         EnviroAtlas_verify fs rt dl = ([Extract (os_path_join rt EnviroAtlas_filename)], None)) \<and>
      (\<not> exists fs (os_path_join rt EnviroAtlas_filename) \<and> \<not> dl \<longrightarrow>
         EnviroAtlas_verify fs rt dl = ([], Some DatasetNotFoundError)) \<and>
      (\<not> exists fs (os_path_join rt EnviroAtlas_filename) \<and> dl \<longrightarrow>
         EnviroAtlas_verify fs rt dl =
           ([Download EnviroAtlas_url rt, Extract (os_path_join rt EnviroAtlas_filename)],
            None)))"
proof -
  have 1: "files fs ps fglob \<noteq> [] \<longrightarrow> GlobBiomass_verify fs ps meas ck fglob = ([], None)"
    by (simp add: GlobBiomass_verify_def)
  have 2: "files fs ps fglob = [] \<and> ps = Paths l \<longrightarrow>
      GlobBiomass_verify fs ps meas ck fglob = ([], Some AssertionError)"
    by (auto simp: GlobBiomass_verify_def)
  have 3: "(zs = [] \<longrightarrow> GlobBiomass_verify fs ps meas ck fglob = ([], Some DatasetNotFoundError)) \<and>
      (zs \<noteq> [] \<and> \<not> ck \<longrightarrow> GlobBiomass_verify fs ps meas ck fglob = (zs, None)) \<and>
      (zs \<noteq> [] \<and> ck \<and> (\<forall>z \<in> set zs. archive_intact fs z) \<longrightarrow>
         GlobBiomass_verify fs ps meas ck fglob = (zs, None)) \<and>
      (ck \<and> zs = good @ bad # rest \<and> (\<forall>z \<in> set good. archive_intact fs z) \<and>
       md5s (os_path_basename bad) = Some md5 \<and> \<not> check_integrity fs bad md5 \<longrightarrow>
         GlobBiomass_verify fs ps meas ck fglob = (good, Some RuntimeError)) \<and>
      (ck \<and> zs = good @ bad # rest \<and> (\<forall>z \<in> set good. archive_intact fs z) \<and>
       md5s (os_path_basename bad) = None \<longrightarrow>
         GlobBiomass_verify fs ps meas ck fglob = (good, Some KeyError))"
    if a: "files fs ps fglob = [] \<and> ps = Path p \<and>
      zs = glob fs (os_path_join p (''*_'' @ meas @ ''.zip''))"
  proof -
    have v: "GlobBiomass_verify fs ps meas ck fglob =
        (if zs \<noteq> [] then extract_zips fs ck zs else ([], Some DatasetNotFoundError))"
      using a by (auto simp: GlobBiomass_verify_def Let_def)
    show ?thesis
      unfolding v
      by (auto simp: extract_zips_no_checksum extract_zips_all_intact
          extract_zips_corrupted extract_zips_unlisted)
  qed
  have 4: "\<forall>ex e. meas \<in> set measurements \<and>
      GlobBiomass_verify fs ps meas ck (format_filename_glob meas) = (ex, Some e) \<longrightarrow>
      GlobBiomass_init fs ri ps c r meas tr ck = (ex, Inl e)"
    by (simp add: GlobBiomass_init_def Let_def)
  have 5: "list_all (\<lambda>filename.
        exists fs (os_path_join (os_path_join rt ''enviroatlas_lotp'') filename))
      EnviroAtlas_files \<longrightarrow> EnviroAtlas_verify fs rt dl = ([], None)"
    by (simp add: EnviroAtlas_verify_def)
  have 6: "\<not> list_all (\<lambda>filename.
        exists fs (os_path_join (os_path_join rt ''enviroatlas_lotp'') filename))
      EnviroAtlas_files \<longrightarrow>
      (exists fs (os_path_join rt EnviroAtlas_filename) \<longrightarrow>
         EnviroAtlas_verify fs rt dl = ([Extract (os_path_join rt EnviroAtlas_filename)], None)) \<and>
      (\<not> exists fs (os_path_join rt EnviroAtlas_filename) \<and> \<not> dl \<longrightarrow>
         EnviroAtlas_verify fs rt dl = ([], Some DatasetNotFoundError)) \<and>
      (\<not> exists fs (os_path_join rt EnviroAtlas_filename) \<and> dl \<longrightarrow>
         EnviroAtlas_verify fs rt dl =
           ([Download EnviroAtlas_url rt, Extract (os_path_join rt EnviroAtlas_filename)],
            None))"
    by (simp add: EnviroAtlas_verify_def)
  from 1 2 3 4 5 6 show ?thesis by blast
qed

theorem verify_precedence_witness:
  "GlobBiomass_verify example_fs (Path ''data'') ''agb'' True ''*_agb.tif'' = ([], None) \<and>
   GlobBiomass_verify example_fs (Path ''zips'') ''agb'' True ''*_agb.tif'' =
     ([''zips/N00E020_agb.zip''], Some RuntimeError) \<and>
   GlobBiomass_verify example_fs (Path ''empty'') ''agb'' True ''*_agb.tif'' =
     ([], Some DatasetNotFoundError) \<and>
   EnviroAtlas_verify example_enviroatlas_fs ''data'' False =
     ([Extract ''data/enviroatlas_lotp.zip''], None) \<and>
   EnviroAtlas_verify example_fs ''data'' False = ([], Some DatasetNotFoundError)"
proof -
  let ?g = "''*_agb.tif''"
  let ?z1 = "''zips/N00E020_agb.zip''" and ?z2 = "''zips/N00E060_agb.zip''"
  let ?md5 = "''85eaca95b939086cc528e396b75bd097''"
  let ?all = "\<lambda>fs. list_all (\<lambda>filename. exists fs
                (os_path_join (os_path_join ''data'' ''enviroatlas_lotp'') filename))
              EnviroAtlas_files"
  have f1: "files example_fs (Path ''data'') ?g \<noteq> []"
    by (simp add: example_fs_def)
  have p2: "files example_fs (Path ''zips'') ?g = [] \<and> Path ''zips'' = Path ''zips'' \<and>
      [?z1] @ ?z2 # [] = glob example_fs (os_path_join ''zips'' (''*_'' @ ''agb'' @ ''.zip''))"
    by (simp add: example_fs_def os_path_join_def)
  have q2: "True \<and> [?z1] @ ?z2 # [] = [?z1] @ ?z2 # [] \<and>
      (\<forall>z \<in> set [?z1]. archive_intact example_fs z) \<and>
      md5s (os_path_basename ?z2) = Some ?md5 \<and> \<not> check_integrity example_fs ?z2 ?md5"
    by (simp add: archive_intact_def example_fs_def os_path_basename_def md5s_def
        md5s_items_def)
  have p3: "files example_fs (Path ''empty'') ?g = [] \<and> Path ''empty'' = Path ''empty'' \<and>
      [] = glob example_fs (os_path_join ''empty'' (''*_'' @ ''agb'' @ ''.zip''))"
    by (simp add: example_fs_def os_path_join_def)
  have e1: "\<not> ?all example_enviroatlas_fs"
    by (simp add: example_enviroatlas_fs_def EnviroAtlas_files_def os_path_join_def)
  have e2: "exists example_enviroatlas_fs (os_path_join ''data'' EnviroAtlas_filename)"
    by (simp add: example_enviroatlas_fs_def EnviroAtlas_filename_def os_path_join_def)
  have e3: "\<not> ?all example_fs"
    by (simp add: example_fs_def EnviroAtlas_files_def)
  have e4: "\<not> exists example_fs (os_path_join ''data'' EnviroAtlas_filename) \<and> \<not> False"
    by (simp add: example_fs_def)
  have e5: "os_path_join ''data'' EnviroAtlas_filename = ''data/enviroatlas_lotp.zip''"
    by (simp add: EnviroAtlas_filename_def os_path_join_def)
  note v1 = verify_precedence [where fs = example_fs and ps = "Path ''data''" and fglob = ?g
      and meas = "''agb''" and ck = True]
  note v2 = verify_precedence [where fs = example_fs and ps = "Path ''zips''" and fglob = ?g
      and meas = "''agb''" and ck = True and p = "''zips''" and zs = "[?z1] @ ?z2 # []"
      and good = "[?z1]" and bad = ?z2 and rest = "[]" and ?md5.0 = ?md5]
  note v3 = verify_precedence [where fs = example_fs and ps = "Path ''empty''" and fglob = ?g
      and meas = "''agb''" and ck = True and p = "''empty''" and zs = "[]"]
  note v4 = verify_precedence [where fs = example_enviroatlas_fs and rt = "''data''"
      and dl = False]
  note v5 = verify_precedence [where fs = example_fs and rt = "''data''" and dl = False]
  have 1: "GlobBiomass_verify example_fs (Path ''data'') ''agb'' True ?g = ([], None)"
    using v1 [THEN conjunct1, THEN mp, OF f1] .
  have 2: "GlobBiomass_verify example_fs (Path ''zips'') ''agb'' True ?g =
      ([?z1], Some RuntimeError)"
    using v2 [THEN conjunct2, THEN conjunct2, THEN conjunct1, THEN mp, OF p2,
        THEN conjunct2, THEN conjunct2, THEN conjunct2, THEN conjunct1, THEN mp, OF q2] .
  have 3: "GlobBiomass_verify example_fs (Path ''empty'') ''agb'' True ?g =
      ([], Some DatasetNotFoundError)"
    using v3 [THEN conjunct2, THEN conjunct2, THEN conjunct1, THEN mp, OF p3,
        THEN conjunct1, THEN mp, OF refl] .
  have 4: "EnviroAtlas_verify example_enviroatlas_fs ''data'' False =
      ([Extract (os_path_join ''data'' EnviroAtlas_filename)], None)"
    using v4 [THEN conjunct2, THEN conjunct2, THEN conjunct2, THEN conjunct2, THEN conjunct2,
        THEN mp, OF e1, THEN conjunct1, THEN mp, OF e2] .
  have 5: "EnviroAtlas_verify example_fs ''data'' False = ([], Some DatasetNotFoundError)"
    using v5 [THEN conjunct2, THEN conjunct2, THEN conjunct2, THEN conjunct2, THEN conjunct2,
        THEN mp, OF e3, THEN conjunct2, THEN conjunct1, THEN mp, OF e4] .
  from 1 2 3 4 5 show ?thesis unfolding e5 by (intro conjI)
qed

text \<open>
  The claim as it is worded knows three outcomes. For a collection of paths under which
  no extracted file is found, \<^verbatim>\<open>GlobBiomass._verify\<close> raises AssertionError: it neither
  looks for archives nor raises DatasetNotFoundError.
\<close>

theorem several_paths_counterexample:
  "files example_fs (Paths [''zips'', ''empty'']) ''*_agb.tif'' = [] \<and>
   GlobBiomass_verify example_fs (Paths [''zips'', ''empty'']) ''agb'' False ''*_agb.tif'' =
     ([], Some AssertionError) \<and>
   GlobBiomass_init example_fs example_raster_init (Paths [''zips'', ''empty'']) None ()
     ''agb'' None False =
     ([], Inl AssertionError :: error + (box, slices, int) globbiomass)"
  by (simp add: example_fs_def GlobBiomass_verify_def GlobBiomass_init_def measurements_def
      format_filename_glob_def)

subsection \<open>The layer \<open>nlcd\<close> of EnviroAtlas\<close>

text \<open>
  C5, at an input where the code does not do what the claim says. The layers \<open>naip\<close>,
  \<open>nlcd\<close> and \<open>lc\<close> are requested; \<open>nlcd\<close> is a valid layer, its raster is read and
  cropped (one band with the value 21), and the call returns a sample. The image holds
  the two bands of \<open>naip\<close>, the mask holds the band of \<open>lc\<close>, and the band of \<open>nlcd\<close> is
  in neither of them.
\<close>

theorem nlcd_layer_dropped:
  "''nlcd'' \<in> set valid_layers \<and>
   rasterio_mask example_enviroatlas_methods ''data/enviroatlas_lotp/t1_b_nlcd.tif''
     \<lparr>minx = 101, miny = 2, maxx = 103, maxy = 4\<rparr> = Some \<lparr>hw = (1, 1), bands = [[21]]\<rparr> \<and>
   layers_crops example_enviroatlas_methods (example_enviroatlas [''naip'', ''nlcd'', ''lc''])
     (columns (index_row (example_feature ''t1'' \<lparr>minx = 0, miny = 0, maxx = 10, maxy = 10\<rparr>)))
     (query_box (example_query 1 3 0 10)) [''naip'', ''nlcd'', ''lc''] None ([], []) =
     [(''naip'', \<lparr>minx = 101, miny = 2, maxx = 103, maxy = 4\<rparr>),
      (''nlcd'', \<lparr>minx = 101, miny = 2, maxx = 103, maxy = 4\<rparr>),
      (''lc'', \<lparr>minx = 101, miny = 2, maxx = 103, maxy = 4\<rparr>)] \<and>
   fst (EnviroAtlas_getitem example_enviroatlas_methods
         (example_enviroatlas [''naip'', ''nlcd'', ''lc'']) (example_query 1 3 0 10)) =
     Inr \<lparr>image = Some \<lparr>hw = (1, 1), bands = [[7], [8]]\<rparr>,
          mask = \<lparr>hw = (1, 1), bands = [[5]]\<rparr>, crs = ''EPSG:3857'',
          bounds = example_query 1 3 0 10\<rparr>"
  by (simp add: example_defs getitem_defs valid_layers_def)

end
